theory Spec2Isabelle
  imports Main "HOL-Library.Word"
begin

unbundle bit_operations_syntax

section \<open>The Python environment of the ingestion core\<close>

text \<open>
  The deduplication engine (\<^verbatim>\<open>src/utils/deduplication.py\<close>) and the event router
  (\<^verbatim>\<open>src/core/event_router.py\<close>, over \<^verbatim>\<open>src/core/database.py\<close>) call into
  Python's standard library: \<^verbatim>\<open>hashlib.sha256\<close>, \<^verbatim>\<open>str\<close>, truthiness, and
  \<^verbatim>\<open>datetime\<close>. This section models those library operations; the sections after it
  translate the repository's own functions.

  Python strings are modelled as their UTF-8 bytes, so \<^verbatim>\<open>s.encode('utf-8')\<close> is the
  identity.
\<close>

subsection \<open>Exceptions\<close>

datatype error =
    TypeError
  | AttributeError
  | ValueError
  | ZeroDivisionError
  | OtherError string

subsection \<open>SHA-256 (FIPS 180-4), as \<^verbatim>\<open>hashlib.sha256(b).hexdigest()\<close>\<close>

type_synonym u32 = "32 word"

definition rotr :: "nat \<Rightarrow> u32 \<Rightarrow> u32" where
  "rotr n x = drop_bit n x OR push_bit (32 - n) x"

definition Ch :: "u32 \<Rightarrow> u32 \<Rightarrow> u32 \<Rightarrow> u32" where
  "Ch x y z = (x AND y) XOR (NOT x AND z)"

definition Maj :: "u32 \<Rightarrow> u32 \<Rightarrow> u32 \<Rightarrow> u32" where
  "Maj x y z = (x AND y) XOR (x AND z) XOR (y AND z)"

definition bsig0 :: "u32 \<Rightarrow> u32" where
  "bsig0 x = rotr 2 x XOR rotr 13 x XOR rotr 22 x"

definition bsig1 :: "u32 \<Rightarrow> u32" where
  "bsig1 x = rotr 6 x XOR rotr 11 x XOR rotr 25 x"

definition ssig0 :: "u32 \<Rightarrow> u32" where
  "ssig0 x = rotr 7 x XOR rotr 18 x XOR drop_bit 3 x"

definition ssig1 :: "u32 \<Rightarrow> u32" where
  "ssig1 x = rotr 17 x XOR rotr 19 x XOR drop_bit 10 x"

text \<open>
  The round constants (the first 32 bits of the fractional parts of the cube roots of the
  first 64 primes) and the initial hash value (of the square roots of the first 8), in
  decimal.
\<close>

definition sha256_K :: "u32 list" where
  "sha256_K = [
     1116352408, 1899447441, 3049323471, 3921009573, 961987163, 1508970993, 2453635748, 2870763221,
     3624381080, 310598401, 607225278, 1426881987, 1925078388, 2162078206, 2614888103, 3248222580,
     3835390401, 4022224774, 264347078, 604807628, 770255983, 1249150122, 1555081692, 1996064986,
     2554220882, 2821834349, 2952996808, 3210313671, 3336571891, 3584528711, 113926993, 338241895,
     666307205, 773529912, 1294757372, 1396182291, 1695183700, 1986661051, 2177026350, 2456956037,
     2730485921, 2820302411, 3259730800, 3345764771, 3516065817, 3600352804, 4094571909, 275423344,
     430227734, 506948616, 659060556, 883997877, 958139571, 1322822218, 1537002063, 1747873779,
     1955562222, 2024104815, 2227730452, 2361852424, 2428436474, 2756734187, 3204031479, 3329325298]"

definition sha256_H0 :: "u32 list" where
  "sha256_H0 = [1779033703, 3144134277, 1013904242, 2773480762,
                1359893119, 2600822924, 528734635, 1541459225]"

text \<open>The message schedule. The window holds the last 16 words, newest first.\<close>

definition next_word :: "u32 list \<Rightarrow> u32" where
  "next_word win = ssig1 (win ! 1) + win ! 6 + ssig0 (win ! 14) + win ! 15"

fun schedule :: "nat \<Rightarrow> u32 list \<Rightarrow> u32 list" where
  "schedule 0 win = []"
| "schedule (Suc n) win = next_word win # schedule n (next_word win # take 15 win)"

fun round_step :: "u32 list \<Rightarrow> u32 \<times> u32 \<Rightarrow> u32 list" where
  "round_step [a, b, c, d, e, f, g, h] (k, w) =
     (let t1 = h + bsig1 e + Ch e f g + k + w;
          t2 = bsig0 a + Maj a b c
      in [t1 + t2, a, b, c, d + t1, e, f, g])"
| "round_step st _ = st"

definition compress :: "u32 list \<Rightarrow> u32 list \<Rightarrow> u32 list" where
  "compress st blk =
     map2 (+) st (foldl round_step st (zip sha256_K (blk @ schedule 48 (rev blk))))"

fun be32 :: "int list \<Rightarrow> u32 list" where
  "be32 (a # b # c # d # r) = of_int (((a * 256 + b) * 256 + c) * 256 + d) # be32 r"
| "be32 _ = []"

fun blocks :: "u32 list \<Rightarrow> u32 list list" where
  "blocks [] = []"
| "blocks (w # ws) = take 16 (w # ws) # blocks (drop 15 ws)"

definition be_bytes8 :: "int \<Rightarrow> int list" where
  "be_bytes8 n = map (\<lambda>i. (n div 256 ^ i) mod 256) [7, 6, 5, 4, 3, 2, 1, 0]"

text \<open>Padding: a 1 bit, zeros up to 56 mod 64 bytes, then the bit length on 8 bytes.\<close>

definition pad :: "int list \<Rightarrow> int list" where
  "pad m = m @ [128] @ replicate (nat ((55 - int (length m)) mod 64)) 0
             @ be_bytes8 (8 * int (length m))"

definition hex_digit :: "int \<Rightarrow> char" where
  "hex_digit n = ''0123456789abcdef'' ! nat n"

definition hex32 :: "u32 \<Rightarrow> string" where
  "hex32 w = map (\<lambda>i. hex_digit ((uint w div 16 ^ i) mod 16)) [7, 6, 5, 4, 3, 2, 1, 0]"

definition digest :: "int list \<Rightarrow> u32 list" where
  "digest p = foldl compress sha256_H0 (blocks (be32 p))"

definition sha256_hexdigest :: "string \<Rightarrow> string" where
  "sha256_hexdigest s = concat (map hex32 (digest (pad (map of_char s))))"

subsection \<open>Formatting integers: \<^verbatim>\<open>str(n)\<close> and \<^verbatim>\<open>'%0wd' % n\<close>\<close>

definition digit_char :: "int \<Rightarrow> char" where
  "digit_char n = ''0123456789'' ! nat n"

function str_nonneg :: "int \<Rightarrow> string" where
  "str_nonneg n = (if n < 10 then [digit_char n] else str_nonneg (n div 10) @ [digit_char (n mod 10)])"
  by pat_completeness auto
termination
  by (relation "measure nat") auto

declare str_nonneg.simps [simp del]

definition str_int :: "int \<Rightarrow> string" where
  "str_int n = (if n < 0 then CHR ''-'' # str_nonneg (- n) else str_nonneg n)"

definition zfill :: "nat \<Rightarrow> string \<Rightarrow> string" where
  "zfill w s = replicate (w - length s) CHR ''0'' @ s"

text \<open>\<^verbatim>\<open>'%0wd' % n\<close>: the sign counts towards the width.\<close>

definition fmt_d :: "nat \<Rightarrow> int \<Rightarrow> string" where
  "fmt_d w n = (if n < 0 then CHR ''-'' # zfill (w - 1) (str_nonneg (- n)) else zfill w (str_nonneg n))"

subsection \<open>\<^verbatim>\<open>datetime\<close>\<close>

text \<open>
  A \<^verbatim>\<open>datetime\<close> object. \<open>tzinfo\<close> is the UTC offset in seconds of an aware value
  and \<open>None\<close> for a naive one (what \<^verbatim>\<open>datetime.utcnow()\<close> returns).
\<close>

record datetime =
  year :: int
  month :: int
  day :: int
  hour :: int
  minute :: int
  second :: int
  microsecond :: int
  tzinfo :: "int option"

definition is_leap :: "int \<Rightarrow> bool" where
  "is_leap y = (y mod 4 = 0 \<and> (y mod 100 \<noteq> 0 \<or> y mod 400 = 0))"

definition days_in_month :: "int \<Rightarrow> int \<Rightarrow> int" where
  "days_in_month y m =
     (if m = 2 then (if is_leap y then 29 else 28)
      else if m = 4 \<or> m = 6 \<or> m = 9 \<or> m = 11 then 30 else 31)"

definition days_before_year :: "int \<Rightarrow> int" where
  "days_before_year y = (y - 1) * 365 + (y - 1) div 4 - (y - 1) div 100 + (y - 1) div 400"

text \<open>The table is read at a month in 1..12, which every datetime object has.\<close>

definition days_before_month :: "int \<Rightarrow> int \<Rightarrow> int" where
  "days_before_month y m =
     (if 1 \<le> m \<and> m \<le> 12
      then [0, 0, 31, 59, 90, 120, 151, 181, 212, 243, 273, 304, 334] ! nat m else 0)
       + (if m > 2 \<and> is_leap y then 1 else 0)"

definition toordinal :: "datetime \<Rightarrow> int" where
  "toordinal d = days_before_year (year d) + days_before_month (year d) (month d) + day d"

text \<open>The wall-clock fields as microseconds since the start of day 0 of the ordinal.\<close>

definition wall_micros :: "datetime \<Rightarrow> int" where
  "wall_micros d =
     (toordinal d * 86400 + hour d * 3600 + minute d * 60 + second d) * 1000000 + microsecond d"

text \<open>
  \<^verbatim>\<open>a - b\<close> on two datetimes, as the \<^verbatim>\<open>timedelta\<close>'s total microseconds: the difference
  of the wall-clock fields when both are naive or carry the same offset, corrected by the
  offsets when both are aware, and a \<^verbatim>\<open>TypeError\<close> when one is naive and the other
  aware.
\<close>

definition datetime_sub :: "datetime \<Rightarrow> datetime \<Rightarrow> error + int" where
  "datetime_sub a b =
     (if tzinfo a = tzinfo b then Inr (wall_micros a - wall_micros b)
      else case (tzinfo a, tzinfo b) of
             (Some oa, Some ob) \<Rightarrow> Inr (wall_micros a - wall_micros b + (ob - oa) * 1000000)
           | _ \<Rightarrow> Inl TypeError)"

text \<open>
  \<^verbatim>\<open>timedelta.seconds\<close>: the seconds field of the normalised
  (days, seconds, microseconds) triple, always in \<open>0..86399\<close>; whole days are
  in \<^verbatim>\<open>.days\<close> and are not part of it.
\<close>

definition timedelta_seconds :: "int \<Rightarrow> int" where
  "timedelta_seconds us = (us div 1000000) mod 86400"

text \<open>\<^verbatim>\<open>datetime.isoformat(sep)\<close>.\<close>

definition format_offset :: "int \<Rightarrow> string" where
  "format_offset off =
     (let a = \<bar>off\<bar>
      in (if off < 0 then ''-'' else ''+'') @ fmt_d 2 (a div 3600) @ '':'' @ fmt_d 2 ((a mod 3600) div 60)
           @ (if a mod 60 \<noteq> 0 then '':'' @ fmt_d 2 (a mod 60) else ''''))"

definition isoformat_sep :: "char \<Rightarrow> datetime \<Rightarrow> string" where
  "isoformat_sep sep d =
     fmt_d 4 (year d) @ ''-'' @ fmt_d 2 (month d) @ ''-'' @ fmt_d 2 (day d) @ [sep]
       @ fmt_d 2 (hour d) @ '':'' @ fmt_d 2 (minute d) @ '':'' @ fmt_d 2 (second d)
       @ (if microsecond d \<noteq> 0 then ''.'' @ fmt_d 6 (microsecond d) else '''')
       @ (case tzinfo d of None \<Rightarrow> '''' | Some off \<Rightarrow> format_offset off)"

definition isoformat :: "datetime \<Rightarrow> string" where
  "isoformat d = isoformat_sep CHR ''T'' d"

text \<open>
  \<^verbatim>\<open>datetime.fromisoformat\<close> differs between interpreters: CPython 3.7 to 3.10 read
  what \<^verbatim>\<open>isoformat()\<close> writes, CPython 3.11 and later read most of ISO 8601 (basic
  format, week dates, \<^verbatim>\<open>Z\<close>, fractions of any length). The engine below therefore
  takes the parser as an argument, of the type \<open>iso_parser\<close>: \<open>Some d\<close> when it
  returns \<open>d\<close>, \<open>None\<close> when it raises.
\<close>

type_synonym iso_parser = "string \<Rightarrow> datetime option"

text \<open>
  For runs on concrete strings, \<open>fromisoformat_common\<close> is a parser of the forms on
  which all those interpreters agree: \<^verbatim>\<open>YYYY-MM-DD\<close>, optionally followed by one
  separator character and \<^verbatim>\<open>HH[:MM[:SS[.fff[fff]]]]\<close>, optionally followed by an offset
  \<^verbatim>\<open>+HH:MM[:SS]\<close> or \<^verbatim>\<open>-HH:MM[:SS]\<close>, with every field in its calendar range.
  It rejects every other string, also those a later interpreter reads; the theorems that
  use it run it on strings of these forms and on \<^verbatim>\<open>not-a-date\<close>, which every
  interpreter rejects.
\<close>

definition digit_val :: "char \<Rightarrow> int option" where
  "digit_val c = (let n = of_char c :: int in if 48 \<le> n \<and> n \<le> 57 then Some (n - 48) else None)"

fun parse_num :: "int \<Rightarrow> string \<Rightarrow> int option" where
  "parse_num acc [] = Some acc"
| "parse_num acc (c # cs) =
     (case digit_val c of None \<Rightarrow> None | Some d \<Rightarrow> parse_num (acc * 10 + d) cs)"

definition parse_fixed :: "nat \<Rightarrow> string \<Rightarrow> int option" where
  "parse_fixed n s = (if length s = n then parse_num 0 s else None)"

text \<open>Two-digit fields separated by colons: \<^verbatim>\<open>DD\<close>, \<^verbatim>\<open>DD:DD\<close>, \<^verbatim>\<open>DD:DD:DD\<close>, ...\<close>

fun parse_fields :: "string \<Rightarrow> int list option" where
  "parse_fields [a, b] = map_option (\<lambda>v. [v]) (parse_num 0 [a, b])"
| "parse_fields (a # b # c # r) =
     (if c = CHR '':'' then
        (case parse_num 0 [a, b] of
           None \<Rightarrow> None
         | Some v \<Rightarrow> map_option ((#) v) (parse_fields r))
      else None)"
| "parse_fields _ = None"

definition parse_hms :: "string \<Rightarrow> (int \<times> int \<times> int \<times> int) option" where
  "parse_hms t =
     (let main = takeWhile (\<lambda>c. c \<noteq> CHR ''.'') t;
          rest = dropWhile (\<lambda>c. c \<noteq> CHR ''.'') t
      in case parse_fields main of
           None \<Rightarrow> None
         | Some fs \<Rightarrow>
             (if rest = [] then
                (case fs of
                   [h] \<Rightarrow> Some (h, 0, 0, 0)
                 | [h, m] \<Rightarrow> Some (h, m, 0, 0)
                 | [h, m, sec] \<Rightarrow> Some (h, m, sec, 0)
                 | _ \<Rightarrow> None)
              else
                (case fs of
                   [h, m, sec] \<Rightarrow>
                     (let frac = tl rest
                      in if length frac = 3 then map_option (\<lambda>v. (h, m, sec, v * 1000)) (parse_num 0 frac)
                         else if length frac = 6 then map_option (\<lambda>v. (h, m, sec, v)) (parse_num 0 frac)
                         else None)
                 | _ \<Rightarrow> None)))"

definition parse_offset :: "char \<Rightarrow> string \<Rightarrow> int option" where
  "parse_offset sign t =
     (case parse_fields t of
        Some [h, m] \<Rightarrow>
          (if h \<le> 23 \<and> m \<le> 59
           then Some ((if sign = CHR ''-'' then - 1 else 1) * (h * 3600 + m * 60)) else None)
      | Some [h, m, sec] \<Rightarrow>
          (if h \<le> 23 \<and> m \<le> 59 \<and> sec \<le> 59
           then Some ((if sign = CHR ''-'' then - 1 else 1) * (h * 3600 + m * 60 + sec)) else None)
      | _ \<Rightarrow> None)"

definition is_sign :: "char \<Rightarrow> bool" where
  "is_sign c = (c = CHR ''+'' \<or> c = CHR ''-'')"

text \<open>The constructor's range checks (\<^verbatim>\<open>ValueError\<close> outside them).\<close>

definition valid_datetime :: "datetime \<Rightarrow> bool" where
  "valid_datetime d =
     (1 \<le> year d \<and> year d \<le> 9999 \<and> 1 \<le> month d \<and> month d \<le> 12
      \<and> 1 \<le> day d \<and> day d \<le> days_in_month (year d) (month d)
      \<and> 0 \<le> hour d \<and> hour d \<le> 23 \<and> 0 \<le> minute d \<and> minute d \<le> 59
      \<and> 0 \<le> second d \<and> second d \<le> 59 \<and> 0 \<le> microsecond d \<and> microsecond d \<le> 999999)"

definition mk_datetime ::
  "int \<Rightarrow> int \<Rightarrow> int \<Rightarrow> (int \<times> int \<times> int \<times> int) \<Rightarrow> int option \<Rightarrow> datetime option" where
  "mk_datetime y mo d t tz =
     (case t of (h, mi, sec, us) \<Rightarrow>
        (let r = \<lparr>year = y, month = mo, day = d, hour = h, minute = mi, second = sec,
                  microsecond = us, tzinfo = tz\<rparr>
         in if valid_datetime r then Some r else None))"

definition fromisoformat_common :: iso_parser where
  "fromisoformat_common s =
     (if length s < 10 \<or> length s = 11 then None
      else if s ! 4 = CHR ''-'' \<and> s ! 7 = CHR ''-'' then
        (case (parse_fixed 4 (take 4 s), parse_fixed 2 (take 2 (drop 5 s)),
               parse_fixed 2 (take 2 (drop 8 s))) of
           (Some y, Some mo, Some d) \<Rightarrow>
             (let tstr = drop 11 s;
                  hms = takeWhile (\<lambda>c. \<not> is_sign c) tstr;
                  tzs = dropWhile (\<lambda>c. \<not> is_sign c) tstr
              in if tstr = [] then mk_datetime y mo d (0, 0, 0, 0) None
                 else case parse_hms hms of
                        None \<Rightarrow> None
                      | Some t \<Rightarrow>
                          (if tzs = [] then mk_datetime y mo d t None
                           else case parse_offset (hd tzs) (tl tzs) of
                                  None \<Rightarrow> None
                                | Some off \<Rightarrow> mk_datetime y mo d t (Some off)))
         | _ \<Rightarrow> None)
      else None)"

text \<open>\<^verbatim>\<open>s.replace('Z', '+00:00')\<close>: every occurrence is replaced.\<close>

fun replace_Z :: "string \<Rightarrow> string" where
  "replace_Z [] = []"
| "replace_Z (c # cs) = (if c = CHR ''Z'' then ''+00:00'' @ replace_Z cs else c # replace_Z cs)"

subsection \<open>Values of an observation\<close>

text \<open>
  An observation is a \<^verbatim>\<open>Dict[str, Any]\<close>. The values modelled are the ones a probe or a
  JSON payload puts under the fields the engine reads: \<^verbatim>\<open>None\<close>, booleans, integers,
  strings and \<^verbatim>\<open>datetime\<close> objects.
\<close>

datatype pyval =
    PNone
  | PBool bool
  | PInt int
  | PStr string
  | PDatetime datetime

type_synonym observation = "string \<rightharpoonup> pyval"

fun truthy :: "pyval \<Rightarrow> bool" where
  "truthy PNone = False"
| "truthy (PBool b) = b"
| "truthy (PInt n) = (n \<noteq> 0)"
| "truthy (PStr s) = (s \<noteq> [])"
| "truthy (PDatetime d) = True"

text \<open>\<^verbatim>\<open>a or b\<close>.\<close>

definition py_or :: "pyval \<Rightarrow> pyval \<Rightarrow> pyval" where
  "py_or a b = (if truthy a then a else b)"

text \<open>\<^verbatim>\<open>str(v)\<close>; for a datetime it is \<^verbatim>\<open>isoformat(sep=' ')\<close>.\<close>

fun str :: "pyval \<Rightarrow> string" where
  "str PNone = ''None''"
| "str (PBool b) = (if b then ''True'' else ''False'')"
| "str (PInt n) = str_int n"
| "str (PStr s) = s"
| "str (PDatetime d) = isoformat_sep CHR '' '' d"

text \<open>\<^verbatim>\<open>data.get(k)\<close> and \<^verbatim>\<open>data.get(k, default)\<close>.\<close>

definition get :: "observation \<Rightarrow> string \<Rightarrow> pyval" where
  "get data k = (case data k of None \<Rightarrow> PNone | Some v \<Rightarrow> v)"

definition get_default :: "observation \<Rightarrow> string \<Rightarrow> pyval \<Rightarrow> pyval" where
  "get_default data k dflt = (case data k of None \<Rightarrow> dflt | Some v \<Rightarrow> v)"

text \<open>\<^verbatim>\<open>sep.join(parts)\<close>.\<close>

fun join :: "string \<Rightarrow> string list \<Rightarrow> string" where
  "join sep [] = []"
| "join sep [p] = p"
| "join sep (p # q # ps) = p @ sep @ join sep (q # ps)"

section \<open>The deduplication engine (\<^verbatim>\<open>src/utils/deduplication.py\<close>)\<close>

text \<open>
  \<^verbatim>\<open>self.bucket_minutes\<close> holds a tuple after \<^verbatim>\<open>__init__\<close>, whose assignment reads
  \<^verbatim>\<open>self.bucket_minutes = 5,\<close> and an integer after \<^verbatim>\<open>set_bucket_interval\<close>.
\<close>

datatype bucket_val = TupleVal "int list" | IntVal int

text \<open>
  The engine's state. The cache maps the key \<^verbatim>\<open>f"{hypertable}:{fingerprint}"\<close> to the
  pair \<^verbatim>\<open>(cache_time, exists)\<close>.
\<close>

record DeduplicationEngine =
  bucket_minutes :: bucket_val
  cache :: "string \<rightharpoonup> (datetime \<times> bool)"
  cache_ttl :: int

text \<open>\<^verbatim>\<open>__init__\<close>.\<close>

definition init :: DeduplicationEngine where
  "init = \<lparr>bucket_minutes = TupleVal [5], cache = Map.empty, cache_ttl = 3600\<rparr>"

text \<open>
  \<^verbatim>\<open>_bucket_timestamp\<close>. \<open>fromisoformat\<close> is the interpreter's
  \<^verbatim>\<open>datetime.fromisoformat\<close> and \<open>now\<close> is what \<^verbatim>\<open>datetime.utcnow()\<close> returns
  at the call. A string is parsed, and an unparsable one is replaced by \<open>now\<close>; a value with no
  \<^verbatim>\<open>minute\<close> attribute raises \<^verbatim>\<open>AttributeError\<close>; \<^verbatim>\<open>int // tuple\<close> raises
  \<^verbatim>\<open>TypeError\<close>; \<^verbatim>\<open>replace(minute=m)\<close> raises \<^verbatim>\<open>ValueError\<close> outside 0..59.
\<close>

definition bucket_timestamp ::
  "iso_parser \<Rightarrow> DeduplicationEngine \<Rightarrow> datetime \<Rightarrow> pyval \<Rightarrow> error + string" where
  "bucket_timestamp fromisoformat self now timestamp =
     (case (case timestamp of
              PStr s \<Rightarrow> Inr (case fromisoformat (replace_Z s) of Some d \<Rightarrow> d | None \<Rightarrow> now)
            | PDatetime d \<Rightarrow> Inr d
            | _ \<Rightarrow> Inl AttributeError) of
        Inl e \<Rightarrow> Inl e
      | Inr ts \<Rightarrow>
          (case bucket_minutes self of
             TupleVal _ \<Rightarrow> Inl TypeError
           | IntVal b \<Rightarrow>
               if b = 0 then Inl ZeroDivisionError
               else if 0 \<le> (minute ts div b) * b \<and> (minute ts div b) * b \<le> 59
               then Inr (isoformat (ts\<lparr>minute := (minute ts div b) * b, second := 0, microsecond := 0\<rparr>))
               else Inl ValueError))"

text \<open>
  \<^verbatim>\<open>data.get('timestamp') or data.get('executed_at') or data.get('recorded_at') or
  data.get('measured_at')\<close>.
\<close>

definition select_timestamp :: "observation \<Rightarrow> pyval" where
  "select_timestamp data =
     py_or (get data ''timestamp'')
       (py_or (get data ''executed_at'')
          (py_or (get data ''recorded_at'') (get data ''measured_at'')))"

text \<open>
  The timestamp of an observation is a non-empty string that the interpreter's parser
  rejects: the case in which \<^verbatim>\<open>_bucket_timestamp\<close> reads the clock.
\<close>

definition unparsable_timestamp :: "iso_parser \<Rightarrow> observation \<Rightarrow> bool" where
  "unparsable_timestamp fromisoformat data =
     (case select_timestamp data of
        PStr s \<Rightarrow> s \<noteq> [] \<and> fromisoformat (replace_Z s) = None
      | _ \<Rightarrow> False)"

text \<open>\<^verbatim>\<open>if data.get(k): key_parts.append(str(data[k]))\<close>.\<close>

definition optional_part :: "observation \<Rightarrow> string \<Rightarrow> string list" where
  "optional_part data k = (if truthy (get data k) then [str (get data k)] else [])"

definition identity_parts :: "observation \<Rightarrow> string list" where
  "identity_parts data =
     [str (get_default data ''db_id'' (PStr [])),
      str (get_default data ''table_name'' (PStr [])),
      str (get_default data ''event_type'' (PStr []))]"

definition disambiguator_parts :: "observation \<Rightarrow> string list" where
  "disambiguator_parts data =
     optional_part data ''query_hash'' @ optional_part data ''index_name''
       @ optional_part data ''column_name''"

text \<open>
  The local \<^verbatim>\<open>key_string\<close> of \<^verbatim>\<open>generate_fingerprint\<close>: the colon-joined
  \<^verbatim>\<open>key_parts\<close>, or the exception \<^verbatim>\<open>_bucket_timestamp\<close> raised.
\<close>

definition key_string ::
  "iso_parser \<Rightarrow> DeduplicationEngine \<Rightarrow> datetime \<Rightarrow> observation \<Rightarrow> bool \<Rightarrow> error + string" where
  "key_string fromisoformat self now data bucket_time =
     (if truthy (select_timestamp data) then
        (if bucket_time then
           (case bucket_timestamp fromisoformat self now (select_timestamp data) of
              Inl e \<Rightarrow> Inl e
            | Inr bucketed \<Rightarrow>
                Inr (join '':'' (identity_parts data @ [bucketed] @ disambiguator_parts data)))
         else Inr (join '':'' (identity_parts data @ [str (select_timestamp data)]
                                 @ disambiguator_parts data)))
      else Inr (join '':'' (identity_parts data @ disambiguator_parts data)))"

text \<open>
  \<^verbatim>\<open>generate_fingerprint\<close>, in the interpreter whose parser is \<open>fromisoformat\<close>, at
  the clock reading \<open>now\<close>.
\<close>

definition generate_fingerprint ::
  "iso_parser \<Rightarrow> DeduplicationEngine \<Rightarrow> datetime \<Rightarrow> observation \<Rightarrow> bool \<Rightarrow> error + string" where
  "generate_fingerprint fromisoformat self now data bucket_time =
     (case key_string fromisoformat self now data bucket_time of
        Inl e \<Rightarrow> Inl e
      | Inr k \<Rightarrow> Inr (sha256_hexdigest k))"

text \<open>\<^verbatim>\<open>set_bucket_interval\<close>.\<close>

definition set_bucket_interval :: "DeduplicationEngine \<Rightarrow> int \<Rightarrow> error + DeduplicationEngine" where
  "set_bucket_interval self minutes =
     (if minutes < 1 \<or> minutes > 60 then Inl ValueError
      else Inr (self\<lparr>bucket_minutes := IntVal minutes\<rparr>))"

text \<open>\<^verbatim>\<open>_get_time_column\<close>.\<close>

definition time_columns :: "(string \<times> string) list" where
  "time_columns =
     [(''schema_metadata'', ''captured_at''),
      (''query_performance'', ''executed_at''),
      (''index_analytics'', ''measured_at''),
      (''table_statistics'', ''recorded_at''),
      (''semantic_relationships'', ''discovered_at''),
      (''system_health'', ''timestamp''),
      (''data_quality_metrics'', ''measured_at''),
      (''agent_actions'', ''executed_at'')]"

definition get_time_column :: "string \<Rightarrow> string" where
  "get_time_column hypertable =
     (case map_of time_columns hypertable of None \<Rightarrow> ''timestamp'' | Some c \<Rightarrow> c)"

definition cache_key :: "string \<Rightarrow> string \<Rightarrow> string" where
  "cache_key hypertable fingerprint = hypertable @ '':'' @ fingerprint"

text \<open>The query text \<^verbatim>\<open>alread_exists\<close> builds with its f-string.\<close>

definition exists_query :: "string \<Rightarrow> string \<Rightarrow> int \<Rightarrow> string" where
  "exists_query hypertable time_column lookback_hours =
     ''SELECT EXISTS ('' @ [CHR 0x0A] @ ''        SELECT 1 FROM _agentic.'' @ hypertable
       @ '' WHERE fingerprint =$1 AND '' @ time_column @ ''> NOW() - INTERVAL '' @ [CHR 0x27]
       @ str_int lookback_hours @ [CHR 0x27] @ '' hours);''"

text \<open>
  The Oracle: \<^verbatim>\<open>self.db.fetchval_ts_db(query, arg)\<close>, which returns the value of
  \<^verbatim>\<open>SELECT EXISTS\<close> or raises.
\<close>

type_synonym fetchval = "string \<Rightarrow> string \<Rightarrow> error + bool"

text \<open>
  What one call of \<^verbatim>\<open>alread_exists\<close> does: the value it returns or the exception it
  raises, the engine afterwards, and the \<^verbatim>\<open>(query, argument)\<close> pairs it sent to the
  Oracle.
\<close>

record outcome =
  returned :: "error + bool"
  engine :: DeduplicationEngine
  queries :: "(string \<times> string) list"

text \<open>
  \<^verbatim>\<open>alread_exists\<close> (the source's spelling). \<open>now\<close> is the reading of
  \<^verbatim>\<open>datetime.utcnow()\<close> at the freshness test, \<open>now'\<close> the one taken after the query
  returns. The freshness test stands outside the \<^verbatim>\<open>try\<close>, so an exception of the
  subtraction leaves the coroutine; one of the query is caught and answered \<^verbatim>\<open>False\<close>.
\<close>

definition alread_exists ::
  "DeduplicationEngine \<Rightarrow> fetchval \<Rightarrow> datetime \<Rightarrow> datetime \<Rightarrow> string \<Rightarrow> string \<Rightarrow> int
     \<Rightarrow> outcome" where
  "alread_exists self db now now' fingerprint hypertable lookback_hours =
     (let key = cache_key hypertable fingerprint;
          query = exists_query hypertable (get_time_column hypertable) lookback_hours;
          ask = (case db query fingerprint of
                   Inr exists \<Rightarrow>
                     \<lparr>returned = Inr exists,
                      engine = self\<lparr>cache := (cache self)(key \<mapsto> (now', exists))\<rparr>,
                      queries = [(query, fingerprint)]\<rparr>
                 | Inl e \<Rightarrow>
                     \<lparr>returned = Inr False, engine = self, queries = [(query, fingerprint)]\<rparr>)
      in case cache self key of
           None \<Rightarrow> ask
         | Some (cache_time, exists) \<Rightarrow>
             (case datetime_sub now cache_time of
                Inl e \<Rightarrow> \<lparr>returned = Inl e, engine = self, queries = []\<rparr>
              | Inr delta \<Rightarrow>
                  if timedelta_seconds delta < cache_ttl self
                  then \<lparr>returned = Inr exists, engine = self, queries = []\<rparr>
                  else ask))"

text \<open>\<^verbatim>\<open>mark_inserted\<close>; \<open>now\<close> is the reading of \<^verbatim>\<open>datetime.utcnow()\<close>.\<close>

definition mark_inserted ::
  "DeduplicationEngine \<Rightarrow> datetime \<Rightarrow> string \<Rightarrow> string \<Rightarrow> DeduplicationEngine" where
  "mark_inserted self now fingerprint hypertable =
     self\<lparr>cache := (cache self)(cache_key hypertable fingerprint \<mapsto> (now, True))\<rparr>"

section \<open>The event router (\<^verbatim>\<open>src/core/event_router.py\<close>) over the database's listeners\<close>

text \<open>
  What the router and \<^verbatim>\<open>Database\<close> write to their loggers. The messages are kept by
  kind and arguments, not by text.
\<close>

datatype log_entry =
    AlreadyListening string
  | ListeningOn string
  | FailedToListen
  | NotListening string
  | StoppedListening string
  | UnlistenError string error
  | AlreadyRunning
  | RouterListening
  | RouterError error
  | CleanupComplete
  | CleanupError error
  | Emitted string string
  | EmitFailed string error

text \<open>
  What the process does to the outside, in order: calls into the connection pool and the
  connections (\<^verbatim>\<open>asyncpg\<close>), one-second sleeps of the listening loop, and log records.
  Connections are named by numbers.
\<close>

datatype effect =
    Acquire nat
  | AddListener nat string
  | RemoveListener nat string
  | Release nat
  | Notify string string
  | Sleep
  | Log log_entry

text \<open>
  The transport: what each call into \<^verbatim>\<open>asyncpg\<close> answers. \<open>acquire ch\<close> is
  \<^verbatim>\<open>pg_pool.acquire()\<close> made to listen on \<open>ch\<close>; \<open>pg_notify\<close> is the whole body of
  \<^verbatim>\<open>Database.notify\<close>. \<^verbatim>\<open>Connection.add_listener(channel, callback)\<close> and
  \<^verbatim>\<open>Connection.remove_listener(channel, callback)\<close> both take the channel and the
  callback; \<open>add_listener\<close> and \<open>remove_listener\<close> are what the connection answers
  to a call that passes both.
\<close>

record transport =
  acquire :: "string \<Rightarrow> error + nat"
  add_listener :: "nat \<Rightarrow> string \<Rightarrow> error + unit"
  remove_listener :: "nat \<Rightarrow> string \<Rightarrow> error + unit"
  release :: "nat \<Rightarrow> error + unit"
  pg_notify :: "string \<Rightarrow> string \<Rightarrow> error + unit"

text \<open>
  A Python call of \<^verbatim>\<open>remove_listener\<close> with the arguments the caller writes:
  \<open>callback_given\<close> says whether the second one is there. Without it the call raises
  \<^verbatim>\<open>TypeError\<close> (a required positional argument is missing) and the connection is
  not reached.
\<close>

definition call_remove_listener :: "transport \<Rightarrow> nat \<Rightarrow> string \<Rightarrow> bool \<Rightarrow> error + unit" where
  "call_remove_listener t conn channel callback_given =
     (if callback_given then remove_listener t conn channel else Inl TypeError)"

text \<open>
  The state of one router and its database: \<^verbatim>\<open>EventRouter.subscribers\<close> (a dict, in
  insertion order; callbacks are named by numbers), \<^verbatim>\<open>EventRouter.running\<close>,
  \<^verbatim>\<open>Database.listeners\<close>, the effects so far, and the number of sleeps so far.
\<close>

record world =
  subscribers :: "(string \<times> nat list) list"
  running :: bool
  listeners :: "string \<rightharpoonup> nat"
  trace :: "effect list"
  polls :: nat

definition emit_effect :: "effect \<Rightarrow> world \<Rightarrow> world" where
  "emit_effect x w = w\<lparr>trace := trace w @ [x]\<rparr>"

definition channels :: "world \<Rightarrow> string list" where
  "channels w = map fst (subscribers w)"

text \<open>\<^verbatim>\<open>Database.listen_channel\<close>.\<close>

definition listen_channel :: "transport \<Rightarrow> string \<Rightarrow> world \<Rightarrow> (error + unit) \<times> world" where
  "listen_channel t channel w =
     (case listeners w channel of
        Some _ \<Rightarrow> (Inr (), emit_effect (Log (AlreadyListening channel)) w)
      | None \<Rightarrow>
          (case acquire t channel of
             Inl e \<Rightarrow> (Inl e, emit_effect (Log FailedToListen) w)
           | Inr conn \<Rightarrow>
               (case add_listener t conn channel of
                  Inl e \<Rightarrow> (Inl e, emit_effect (Log FailedToListen) (emit_effect (Acquire conn) w))
                | Inr _ \<Rightarrow>
                    (Inr (),
                     emit_effect (Log (ListeningOn channel))
                       ((emit_effect (AddListener conn channel) (emit_effect (Acquire conn) w))
                          \<lparr>listeners := (listeners w)(channel \<mapsto> conn)\<rparr>)))))"

text \<open>
  \<^verbatim>\<open>Database.unlisten_channel\<close>. It calls \<^verbatim>\<open>conn.remove_listener(channel)\<close>, with the
  channel only: \<^verbatim>\<open>listen_channel\<close> passed its closure \<^verbatim>\<open>listener_callback\<close> to
  \<^verbatim>\<open>add_listener\<close> and kept no reference to it. Its \<^verbatim>\<open>except Exception\<close> logs and
  returns, so it raises nothing.
\<close>

definition unlisten_channel :: "transport \<Rightarrow> string \<Rightarrow> world \<Rightarrow> (error + unit) \<times> world" where
  "unlisten_channel t channel w =
     (case listeners w channel of
        None \<Rightarrow> (Inr (), emit_effect (Log (NotListening channel)) w)
      | Some conn \<Rightarrow>
          (case call_remove_listener t conn channel False of
             Inl e \<Rightarrow> (Inr (), emit_effect (Log (UnlistenError channel e)) w)
           | Inr _ \<Rightarrow>
               (case release t conn of
                  Inl e \<Rightarrow>
                    (Inr (), emit_effect (Log (UnlistenError channel e))
                               (emit_effect (RemoveListener conn channel) w))
                | Inr _ \<Rightarrow>
                    (Inr (),
                     emit_effect (Log (StoppedListening channel))
                       ((emit_effect (Release conn) (emit_effect (RemoveListener conn channel) w))
                          \<lparr>listeners := (listeners w)(channel := None)\<rparr>)))))"

text \<open>
  \<^verbatim>\<open>EventRouter.cleanup\<close>: the loop over \<^verbatim>\<open>list(self.subscribers.keys())\<close> inside one
  \<^verbatim>\<open>try\<close>, whose handler logs.
\<close>

fun unlisten_all :: "transport \<Rightarrow> string list \<Rightarrow> world \<Rightarrow> (error + unit) \<times> world" where
  "unlisten_all t [] w = (Inr (), w)"
| "unlisten_all t (ch # chs) w =
     (case unlisten_channel t ch w of
        (Inl e, w') \<Rightarrow> (Inl e, w')
      | (Inr _, w') \<Rightarrow> unlisten_all t chs w')"

definition cleanup :: "transport \<Rightarrow> world \<Rightarrow> (error + unit) \<times> world" where
  "cleanup t w =
     (case unlisten_all t (channels w) w of
        (Inl e, w') \<Rightarrow> (Inr (), emit_effect (Log (CleanupError e)) w')
      | (Inr _, w') \<Rightarrow> (Inr (), emit_effect (Log CleanupComplete) w'))"

text \<open>
  One \<^verbatim>\<open>await asyncio.sleep(1)\<close> of the listening loop. While the coroutine sleeps,
  another task may call \<^verbatim>\<open>stop()\<close>, which sets \<^verbatim>\<open>running\<close> to false: \<open>stop_at\<close> is
  the number of the sleep during which that happens, \<open>None\<close> when nobody calls it.
\<close>

definition sleep :: "nat option \<Rightarrow> world \<Rightarrow> world" where
  "sleep stop_at w =
     (emit_effect Sleep w)
       \<lparr>polls := Suc (polls w),
        running := (if stop_at = Some (Suc (polls w)) then False else running w)\<rparr>"

text \<open>\<^verbatim>\<open>while self.running: await asyncio.sleep(1)\<close>; \<open>None\<close> when it never ends.\<close>

partial_function (option) wait_while_running :: "nat option \<Rightarrow> world \<Rightarrow> world option" where
  "wait_while_running stop_at w =
     (if running w then wait_while_running stop_at (sleep stop_at w) else Some w)"

declare wait_while_running.simps [code]

text \<open>
  The \<^verbatim>\<open>for\<close> loop of \<^verbatim>\<open>start_listening\<close>. Its body is the call of
  \<^verbatim>\<open>listen_channel\<close>, the log record, and the \<^verbatim>\<open>while\<close> loop: the source indents
  the \<^verbatim>\<open>while\<close> inside the \<^verbatim>\<open>for\<close>.
\<close>

fun listen_loop ::
  "transport \<Rightarrow> nat option \<Rightarrow> string list \<Rightarrow> world \<Rightarrow> ((error + unit) \<times> world) option" where
  "listen_loop t stop_at [] w = Some (Inr (), w)"
| "listen_loop t stop_at (ch # chs) w =
     (case listen_channel t ch w of
        (Inl e, w') \<Rightarrow> Some (Inl e, w')
      | (Inr _, w') \<Rightarrow>
          (case wait_while_running stop_at (emit_effect (Log RouterListening) w') of
             None \<Rightarrow> None
           | Some w'' \<Rightarrow> listen_loop t stop_at chs w''))"

text \<open>
  \<^verbatim>\<open>start_listening\<close>: what it returns or raises and the state afterwards, or \<open>None\<close>
  when it never returns.
\<close>

definition start_listening ::
  "transport \<Rightarrow> nat option \<Rightarrow> world \<Rightarrow> ((error + unit) \<times> world) option" where
  "start_listening t stop_at w =
     (if running w then Some (Inr (), emit_effect (Log AlreadyRunning) w)
      else case listen_loop t stop_at (channels w) (w\<lparr>running := True\<rparr>) of
             None \<Rightarrow> None
           | Some (Inl e, w') \<Rightarrow>
               Some (Inl e, snd (cleanup t ((emit_effect (Log (RouterError e)) w')\<lparr>running := False\<rparr>)))
           | Some (Inr _, w') \<Rightarrow> Some (Inr (), snd (cleanup t w')))"

text \<open>
  \<^verbatim>\<open>emit\<close>. \<open>dumps\<close> is \<^verbatim>\<open>json.dumps\<close>, which returns the payload or raises. Both
  failures are caught by the one \<^verbatim>\<open>except Exception\<close>, which logs.
\<close>

definition emit ::
  "(observation \<Rightarrow> error + string) \<Rightarrow> transport \<Rightarrow> string \<Rightarrow> observation \<Rightarrow> world
     \<Rightarrow> (error + unit) \<times> world" where
  "emit dumps t channel data w =
     (case dumps data of
        Inl e \<Rightarrow> (Inr (), emit_effect (Log (EmitFailed channel e)) w)
      | Inr payload \<Rightarrow>
          (case pg_notify t channel payload of
             Inl e \<Rightarrow> (Inr (), emit_effect (Log (EmitFailed channel e)) w)
           | Inr _ \<Rightarrow>
               (Inr (),
                emit_effect (Log (Emitted channel (str (get_default data ''event_type'' (PStr ''unknown'')))))
                  (emit_effect (Notify channel payload) w))))"

section \<open>Concrete engines, observations and clock readings\<close>

text \<open>The engine after \<^verbatim>\<open>set_bucket_interval(5)\<close> on a new engine.\<close>

definition bucket5 :: DeduplicationEngine where
  "bucket5 = init\<lparr>bucket_minutes := IntVal 5\<rparr>"

text \<open>
  The observation \<^verbatim>\<open>{db_id: "db1", table_name: "orders", event_type: "slow_query",
  query_hash: "abc123", executed_at: t}\<close>.
\<close>

definition slow_query :: "string \<Rightarrow> observation" where
  "slow_query t =
     [''db_id'' \<mapsto> PStr ''db1'', ''table_name'' \<mapsto> PStr ''orders'',
      ''event_type'' \<mapsto> PStr ''slow_query'', ''query_hash'' \<mapsto> PStr ''abc123'',
      ''executed_at'' \<mapsto> PStr t]"

text \<open>A reading of \<^verbatim>\<open>datetime.utcnow()\<close> on 2024-01-01 at \<open>h:m:s\<close>.\<close>

definition utc_2024_01_01 :: "int \<Rightarrow> int \<Rightarrow> int \<Rightarrow> datetime" where
  "utc_2024_01_01 h m s =
     \<lparr>year = 2024, month = 1, day = 1, hour = h, minute = m, second = s, microsecond = 0,
      tzinfo = None\<rparr>"

text \<open>
  A cache holding one verdict for \<open>(query_performance, f1)\<close>, recorded on 2024-01-01 at
  00:00:00, and a reading of the clock one day and ten seconds later.
\<close>

definition stale_engine :: DeduplicationEngine where
  "stale_engine =
     init\<lparr>cache := [cache_key ''query_performance'' ''f1'' \<mapsto> (utc_2024_01_01 0 0 0, False)]\<rparr>"

definition next_day_0_0_10 :: datetime where
  "next_day_0_0_10 = (utc_2024_01_01 0 0 10)\<lparr>day := 2\<rparr>"

text \<open>An Oracle that finds every fingerprint, and one that is down.\<close>

definition oracle_true :: fetchval where
  "oracle_true q a = Inr True"

definition oracle_down :: fetchval where
  "oracle_down q a = Inl (OtherError ''connection lost'')"



text \<open>A transport on which every call succeeds; a connection is numbered by its channel's length.\<close>

definition transport_ok :: transport where
  "transport_ok =
     \<lparr>acquire = (\<lambda>ch. Inr (length ch)),
      add_listener = (\<lambda>conn ch. Inr ()),
      remove_listener = (\<lambda>conn ch. Inr ()),
      release = (\<lambda>conn. Inr ()),
      pg_notify = (\<lambda>ch payload. Inr ())\<rparr>"

text \<open>The same transport with \<^verbatim>\<open>pg_notify\<close> failing.\<close>

definition transport_notify_down :: transport where
  "transport_notify_down = transport_ok\<lparr>pg_notify := (\<lambda>ch payload. Inl (OtherError ''connection lost''))\<rparr>"

text \<open>A router with two subscribed channels, not yet listening, and the same one listening on both.\<close>

definition two_channels :: world where
  "two_channels =
     \<lparr>subscribers = [(''monitoring_events'', [0]), (''performance_events'', [1])],
      running = False, listeners = Map.empty, trace = [], polls = 0\<rparr>"

definition two_channels_listening :: world where
  "two_channels_listening =
     two_channels\<lparr>listeners := [''monitoring_events'' \<mapsto> 17, ''performance_events'' \<mapsto> 18]\<rparr>"

text \<open>A stand-in for \<^verbatim>\<open>json.dumps\<close> that serialises every dict.\<close>

definition dumps_ok :: "observation \<Rightarrow> error + string" where
  "dumps_ok data = Inr ''payload''"

section \<open>Digests and key strings of the concrete observations\<close>

lemma sha256_key_1000:
  "sha256_hexdigest ''db1:orders:slow_query:2024-01-01T10:00:00:abc123''
     = ''15f1426886a13948635be5695724a612ba19f5fcb29406438c160005795300ab''"
  by code_simp

lemma sha256_key_1000_utc:
  "sha256_hexdigest ''db1:orders:slow_query:2024-01-01T10:00:00+00:00:abc123''
     = ''5fa900fb644369c8433daabe436334100cbf5d58737f3a5953f3a2cac081bcf3''"
  by code_simp

lemma sha256_key_1005:
  "sha256_hexdigest ''db1:orders:slow_query:2024-01-01T10:05:00:abc123''
     = ''ae2a3b284ef8b5144155cd6084989bc76ff535a30382310a91de6593d3cec1b0''"
  by code_simp

lemma sha256_key_1005_utc:
  "sha256_hexdigest ''db1:orders:slow_query:2024-01-01T10:05:00+00:00:abc123''
     = ''9a5951ba1c3012fe83ddf2e390d3f35268e678551ead7939f996f1b01aee3bb5''"
  by code_simp

lemma set_bucket_interval_5: "set_bucket_interval init 5 = Inr bucket5"
  by (simp add: set_bucket_interval_def bucket5_def)

lemma key_1003:
  "key_string fromisoformat_common bucket5 now (slow_query ''2024-01-01T10:03:30Z'') True
     = Inr ''db1:orders:slow_query:2024-01-01T10:00:00+00:00:abc123''"
  by code_simp

lemma key_1004:
  "key_string fromisoformat_common bucket5 now (slow_query ''2024-01-01T10:04:50Z'') True
     = Inr ''db1:orders:slow_query:2024-01-01T10:00:00+00:00:abc123''"
  by code_simp

lemma key_1005:
  "key_string fromisoformat_common bucket5 now (slow_query ''2024-01-01T10:05:01Z'') True
     = Inr ''db1:orders:slow_query:2024-01-01T10:05:00+00:00:abc123''"
  by code_simp

lemma bucketed_1003:
  "bucket_timestamp fromisoformat_common bucket5 now (PStr ''2024-01-01T10:03:30Z'')
     = Inr ''2024-01-01T10:00:00+00:00''"
  by code_simp

lemma key_unparsable_1003:
  "key_string fromisoformat_common bucket5 (utc_2024_01_01 10 3 30) (slow_query ''not-a-date'') True
     = Inr ''db1:orders:slow_query:2024-01-01T10:00:00:abc123''"
  by code_simp

lemma key_unparsable_1005:
  "key_string fromisoformat_common bucket5 (utc_2024_01_01 10 5 1) (slow_query ''not-a-date'') True
     = Inr ''db1:orders:slow_query:2024-01-01T10:05:00:abc123''"
  by code_simp

section \<open>Fingerprints\<close>

text \<open>
  On an engine as \<^verbatim>\<open>__init__\<close> leaves it, \<^verbatim>\<open>bucket_minutes\<close> is the tuple
  \<^verbatim>\<open>(5,)\<close>, and \<^verbatim>\<open>timestamp.minute // self.bucket_minutes\<close> raises
  \<^verbatim>\<open>TypeError\<close> for every observation whose timestamp is a non-empty string or a
  datetime, whatever the parser makes of the string.
\<close>

lemma init_raises_on_timestamp:
  assumes "select_timestamp data = PStr s \<and> s \<noteq> [] \<or> select_timestamp data = PDatetime d"
  shows "generate_fingerprint fromisoformat init now data True = Inl TypeError"
  using assms
  by (auto simp: generate_fingerprint_def key_string_def bucket_timestamp_def init_def)

text \<open>
  With an integer bucket width in 1..60, two observations whose timestamp strings parse to
  the same date, hour and offset and to minutes of the same bucket, and that agree on the
  identifying and disambiguating parts, have the same fingerprint at any readings of the clock.
\<close>

lemma same_window_same_fingerprint:
  assumes "bucket_minutes self = IntVal b" and "1 \<le> b" and "b \<le> 60"
    and "select_timestamp d1 = PStr s1" and "fromisoformat (replace_Z s1) = Some t1"
    and "select_timestamp d2 = PStr s2" and "fromisoformat (replace_Z s2) = Some t2"
    and "s1 \<noteq> []" and "s2 \<noteq> []"
    and "year t1 = year t2" and "month t1 = month t2" and "day t1 = day t2"
    and "hour t1 = hour t2" and "tzinfo t1 = tzinfo t2"
    and "minute t1 div b = minute t2 div b"
    and "identity_parts d1 = identity_parts d2"
    and "disambiguator_parts d1 = disambiguator_parts d2"
  shows "generate_fingerprint fromisoformat self now1 d1 True
           = generate_fingerprint fromisoformat self now2 d2 True"
proof -
  have "t1\<lparr>minute := (minute t1 div b) * b, second := 0, microsecond := 0\<rparr>
          = t2\<lparr>minute := (minute t2 div b) * b, second := 0, microsecond := 0\<rparr>"
    using assms(10-15) by (simp add: datetime.equality)
  then have "bucket_timestamp fromisoformat self now1 (PStr s1)
               = bucket_timestamp fromisoformat self now2 (PStr s2)"
    using assms(1,2,5,7,15) by (simp add: bucket_timestamp_def)
  then show ?thesis
    by (simp add: generate_fingerprint_def key_string_def assms(4,6,8,9,16,17) split: sum.splits)
qed

text \<open>
  The fingerprint depends on the parser only through its answer on the observation's own
  timestamp string: two interpreters whose parsers agree on that string return the same
  result. The runs below with \<open>fromisoformat_common\<close> are therefore the runs of every
  interpreter that reads, or rejects, their timestamp strings as it does.
\<close>

lemma parsers_agreeing_on_the_timestamp:
  assumes "\<And>s. select_timestamp data = PStr s \<Longrightarrow> p1 (replace_Z s) = p2 (replace_Z s)"
  shows "generate_fingerprint p1 self now data bucket_time
           = generate_fingerprint p2 self now data bucket_time"
proof -
  have "bucket_timestamp p1 self now (select_timestamp data)
          = bucket_timestamp p2 self now (select_timestamp data)"
    using assms by (cases "select_timestamp data") (simp_all add: bucket_timestamp_def)
  then have "key_string p1 self now data bucket_time = key_string p2 self now data bucket_time"
    by (simp add: key_string_def)
  then show ?thesis by (simp add: generate_fingerprint_def)
qed

text \<open>
  C1. Two observations with the same identifying fields and timestamps in the same
  five-minute window are to receive the same fingerprint under the default bucket width.
  On the default engine \<^verbatim>\<open>generate_fingerprint\<close> returns no fingerprint for either of
  them: it raises \<^verbatim>\<open>TypeError\<close>, with any interpreter's parser.
\<close>

theorem C1_default_engine_raises:
  "generate_fingerprint fromisoformat init (utc_2024_01_01 10 6 0)
     (slow_query ''2024-01-01T10:03:30Z'') True = Inl TypeError
   \<and> generate_fingerprint fromisoformat init (utc_2024_01_01 10 6 0)
       (slow_query ''2024-01-01T10:04:50Z'') True = Inl TypeError"
  by code_simp

text \<open>
  C2, as stated: with bucket width 5 the fingerprint of the observation stamped
  \<^verbatim>\<open>2024-01-01T10:03:30Z\<close> would be the digest of
  \<^verbatim>\<open>db1:orders:slow_query:2024-01-01T10:00:00:abc123\<close>. It is not: the parsed timestamp
  is aware, and \<^verbatim>\<open>isoformat()\<close> keeps its offset.
\<close>

theorem C2_counterexample:
  "generate_fingerprint fromisoformat_common bucket5 (utc_2024_01_01 10 6 0)
     (slow_query ''2024-01-01T10:03:30Z'') True
     \<noteq> Inr (sha256_hexdigest ''db1:orders:slow_query:2024-01-01T10:00:00:abc123'')"
  by (simp add: generate_fingerprint_def key_1003 sha256_key_1000 sha256_key_1000_utc)

text \<open>
  C2, amended: after \<^verbatim>\<open>set_bucket_interval(5)\<close>, at any reading of the clock, the
  bucketed time of \<^verbatim>\<open>2024-01-01T10:03:30Z\<close> is \<^verbatim>\<open>2024-01-01T10:00:00+00:00\<close>, the
  fingerprint is the SHA-256 digest of
  \<^verbatim>\<open>db1:orders:slow_query:2024-01-01T10:00:00+00:00:abc123\<close>, the observation stamped
  \<^verbatim>\<open>10:04:50Z\<close> has the same fingerprint and the one stamped \<^verbatim>\<open>10:05:01Z\<close> a
  different one.
\<close>

theorem C2_bucket5_scenario:
  "set_bucket_interval init 5 = Inr bucket5
   \<and> bucket_timestamp fromisoformat_common bucket5 now (PStr ''2024-01-01T10:03:30Z'')
       = Inr ''2024-01-01T10:00:00+00:00''
   \<and> generate_fingerprint fromisoformat_common bucket5 now (slow_query ''2024-01-01T10:03:30Z'') True
       = Inr (sha256_hexdigest ''db1:orders:slow_query:2024-01-01T10:00:00+00:00:abc123'')
   \<and> generate_fingerprint fromisoformat_common bucket5 now (slow_query ''2024-01-01T10:04:50Z'') True
       = generate_fingerprint fromisoformat_common bucket5 now (slow_query ''2024-01-01T10:03:30Z'') True
   \<and> generate_fingerprint fromisoformat_common bucket5 now (slow_query ''2024-01-01T10:05:01Z'') True
       \<noteq> generate_fingerprint fromisoformat_common bucket5 now (slow_query ''2024-01-01T10:03:30Z'') True"
  by (simp add: generate_fingerprint_def set_bucket_interval_5 bucketed_1003 key_1003 key_1004
        key_1005 sha256_key_1000_utc sha256_key_1005_utc)

text \<open>
  C9, as stated: two calls on the same observation and bucket configuration would return
  the same fingerprint at any two times, also when the timestamp is unparsable. With the
  unparsable \<^verbatim>\<open>executed_at\<close> value \<^verbatim>\<open>not-a-date\<close> the calls at 10:03:30 and at
  10:05:01 return different fingerprints: the fallback reads the clock.
\<close>

theorem C9_counterexample:
  "generate_fingerprint fromisoformat_common bucket5 (utc_2024_01_01 10 3 30)
     (slow_query ''not-a-date'') True
     \<noteq> generate_fingerprint fromisoformat_common bucket5 (utc_2024_01_01 10 5 1)
         (slow_query ''not-a-date'') True"
  by (simp add: generate_fingerprint_def key_unparsable_1003 key_unparsable_1005
        sha256_key_1000 sha256_key_1005)

text \<open>
  C9, amended: in every interpreter, for every observation and value of
  \<^verbatim>\<open>bucket_time\<close>, two calls of \<^verbatim>\<open>generate_fingerprint\<close> on engines with the same
  \<^verbatim>\<open>bucket_minutes\<close> (whatever their caches) return the same result, a fingerprint or an
  exception, at any two readings of the clock, unless \<^verbatim>\<open>bucket_time\<close> is true and the
  observation's timestamp is a non-empty string that the interpreter's
  \<^verbatim>\<open>datetime.fromisoformat\<close> rejects.
\<close>

theorem C9_deterministic_unless_unparsable:
  assumes "bucket_minutes s1 = bucket_minutes s2"
    and "bucket_time \<longrightarrow> \<not> unparsable_timestamp fromisoformat data"
  shows "generate_fingerprint fromisoformat s1 now1 data bucket_time
           = generate_fingerprint fromisoformat s2 now2 data bucket_time"
proof -
  have "bucket_timestamp fromisoformat s1 now1 (select_timestamp data)
          = bucket_timestamp fromisoformat s2 now2 (select_timestamp data)"
    if "truthy (select_timestamp data)" and "bucket_time"
    using assms that
    by (cases "select_timestamp data")
       (auto simp: unparsable_timestamp_def bucket_timestamp_def split: option.splits)
  then have "key_string fromisoformat s1 now1 data bucket_time
               = key_string fromisoformat s2 now2 data bucket_time"
    by (simp add: key_string_def)
  then show ?thesis by (simp add: generate_fingerprint_def)
qed

theorem C9_witness:
  "bucket_minutes bucket5
     = bucket_minutes (mark_inserted bucket5 (utc_2024_01_01 10 4 0) ''f1'' ''query_performance'')
   \<and> \<not> unparsable_timestamp fromisoformat_common (slow_query ''2024-01-01T10:03:30Z'')
   \<and> generate_fingerprint fromisoformat_common bucket5 (utc_2024_01_01 10 3 30)
         (slow_query ''2024-01-01T10:03:30Z'') True
       = generate_fingerprint fromisoformat_common
           (mark_inserted bucket5 (utc_2024_01_01 10 4 0) ''f1'' ''query_performance'')
           (utc_2024_01_01 10 5 1) (slow_query ''2024-01-01T10:03:30Z'') True"
proof -
  have h1: "bucket_minutes bucket5
              = bucket_minutes (mark_inserted bucket5 (utc_2024_01_01 10 4 0) ''f1'' ''query_performance'')"
    by (simp add: mark_inserted_def)
  have h: "\<not> unparsable_timestamp fromisoformat_common (slow_query ''2024-01-01T10:03:30Z'')"
    by code_simp
  then have h2: "True \<longrightarrow> \<not> unparsable_timestamp fromisoformat_common (slow_query ''2024-01-01T10:03:30Z'')"
    by simp
  from C9_deterministic_unless_unparsable [OF h1 h2] h1 h show ?thesis
    by simp
qed




section \<open>The fingerprint cache\<close>

text \<open>
  The freshness test on the seconds field: an age from 0 up to the TTL passes it, and an age
  from the TTL up to one day fails it.
\<close>

lemma seconds_within_ttl:
  assumes "0 \<le> us" and "us < ttl * 1000000"
  shows "timedelta_seconds us < ttl"
proof -
  have a: "0 \<le> us div 1000000" using assms(1) by simp
  have b: "us div 1000000 < ttl" using assms(2) by linarith
  have "(us div 1000000) mod 86400 \<le> us div 1000000"
    using a by (simp add: zmod_le_nonneg_dividend)
  with b show ?thesis by (simp add: timedelta_seconds_def)
qed

lemma seconds_beyond_ttl:
  assumes "ttl * 1000000 \<le> us" and "us < 86400 * 1000000" and "0 \<le> ttl"
  shows "\<not> timedelta_seconds us < ttl"
proof -
  have a: "ttl \<le> us div 1000000" using assms(1) by linarith
  have "0 \<le> ttl * 1000000" using assms(3) by simp
  then have "0 \<le> us" using assms(1) by linarith
  then have b: "0 \<le> us div 1000000" by simp
  have c: "us div 1000000 < 86400" using assms(2) by linarith
  have "(us div 1000000) mod 86400 = us div 1000000"
    using b c by simp
  with a show ?thesis by (simp add: timedelta_seconds_def)
qed

text \<open>
  The three paths of \<^verbatim>\<open>alread_exists\<close> when the Oracle answers: no entry, a fresh
  entry, and an entry between the TTL and one day old.
\<close>

lemma cache_miss_queries:
  assumes "cache self (cache_key h f) = None"
    and "db (exists_query h (get_time_column h) lookback_hours) f = Inr v"
  shows "alread_exists self db now now' f h lookback_hours
           = \<lparr>returned = Inr v,
              engine = self\<lparr>cache := (cache self)(cache_key h f \<mapsto> (now', v))\<rparr>,
              queries = [(exists_query h (get_time_column h) lookback_hours, f)]\<rparr>"
  using assms by (simp add: alread_exists_def Let_def)

lemma cache_fresh_hit:
  assumes "cache self (cache_key h f) = Some (t, v)"
    and "tzinfo now = tzinfo t"
    and "0 \<le> wall_micros now - wall_micros t"
    and "wall_micros now - wall_micros t < cache_ttl self * 1000000"
  shows "alread_exists self db now now' f h lookback_hours
           = \<lparr>returned = Inr v, engine = self, queries = []\<rparr>"
proof -
  have "datetime_sub now t = Inr (wall_micros now - wall_micros t)"
    using assms(2) by (simp add: datetime_sub_def)
  moreover have "timedelta_seconds (wall_micros now - wall_micros t) < cache_ttl self"
    using assms(3,4) by (rule seconds_within_ttl)
  ultimately show ?thesis
    using assms(1) by (simp add: alread_exists_def Let_def)
qed

lemma cache_expired_within_a_day_queries:
  assumes "cache self (cache_key h f) = Some (t, v0)"
    and "tzinfo now = tzinfo t"
    and "0 \<le> cache_ttl self"
    and "cache_ttl self * 1000000 \<le> wall_micros now - wall_micros t"
    and "wall_micros now - wall_micros t < 86400 * 1000000"
    and "db (exists_query h (get_time_column h) lookback_hours) f = Inr v"
  shows "alread_exists self db now now' f h lookback_hours
           = \<lparr>returned = Inr v,
              engine = self\<lparr>cache := (cache self)(cache_key h f \<mapsto> (now', v))\<rparr>,
              queries = [(exists_query h (get_time_column h) lookback_hours, f)]\<rparr>"
proof -
  have "datetime_sub now t = Inr (wall_micros now - wall_micros t)"
    using assms(2) by (simp add: datetime_sub_def)
  moreover have "\<not> timedelta_seconds (wall_micros now - wall_micros t) < cache_ttl self"
    using assms(4,5,3) by (rule seconds_beyond_ttl)
  ultimately show ?thesis
    using assms(1,6) by (simp add: alread_exists_def Let_def)
qed

text \<open>
  C3. A cached verdict is to be served only while it is not older than the TTL of 3600
  seconds. With a verdict recorded one day and ten seconds earlier (86410 seconds),
  \<^verbatim>\<open>alread_exists\<close> returns the cached \<^verbatim>\<open>False\<close> and sends no query, although the
  Oracle would answer \<^verbatim>\<open>True\<close>: the test reads \<^verbatim>\<open>timedelta.seconds\<close>, which
  leaves out whole days, and finds 10.
\<close>

theorem C3_stale_entry_served_from_cache:
  "cache stale_engine (cache_key ''query_performance'' ''f1'') = Some (utc_2024_01_01 0 0 0, False)
   \<and> datetime_sub next_day_0_0_10 (utc_2024_01_01 0 0 0) = Inr (86410 * 1000000)
   \<and> cache_ttl stale_engine = 3600
   \<and> alread_exists stale_engine oracle_true next_day_0_0_10 next_day_0_0_10
        ''f1'' ''query_performance'' 1
       = \<lparr>returned = Inr False, engine = stale_engine, queries = []\<rparr>"
  by (simp add: alread_exists_def stale_engine_def init_def next_day_0_0_10_def utc_2024_01_01_def
        datetime_sub_def wall_micros_def toordinal_def days_before_year_def days_before_month_def
        is_leap_def timedelta_seconds_def Let_def)

text \<open>
  C4. \<^verbatim>\<open>mark_inserted(f, h)\<close> at the clock reading \<open>now1\<close>, followed by
  \<^verbatim>\<open>alread_exists(f, h)\<close> at a reading \<open>now2\<close> that is not earlier and less than the
  TTL later (both readings of \<^verbatim>\<open>utcnow()\<close>, so naive), returns \<^verbatim>\<open>True\<close>, sends no
  query to the Oracle whatever the Oracle would answer, and leaves the engine as it was.
\<close>

theorem C4_mark_then_exists:
  assumes "tzinfo now1 = None" and "tzinfo now2 = None"
    and "0 \<le> wall_micros now2 - wall_micros now1"
    and "wall_micros now2 - wall_micros now1 < cache_ttl self * 1000000"
  shows "alread_exists (mark_inserted self now1 f h) db now2 now3 f h lookback_hours
           = \<lparr>returned = Inr True, engine = mark_inserted self now1 f h, queries = []\<rparr>"
proof -
  have "datetime_sub now2 now1 = Inr (wall_micros now2 - wall_micros now1)"
    using assms(1,2) by (simp add: datetime_sub_def)
  moreover have "timedelta_seconds (wall_micros now2 - wall_micros now1) < cache_ttl self"
    using assms(3,4) by (rule seconds_within_ttl)
  ultimately show ?thesis
    by (simp add: alread_exists_def mark_inserted_def Let_def)
qed

theorem C4_witness:
  "alread_exists (mark_inserted init (utc_2024_01_01 10 0 0) ''f1'' ''query_performance'')
     oracle_down (utc_2024_01_01 10 0 1) (utc_2024_01_01 10 0 2) ''f1'' ''query_performance'' 1
     = \<lparr>returned = Inr True,
        engine = mark_inserted init (utc_2024_01_01 10 0 0) ''f1'' ''query_performance'',
        queries = []\<rparr>"
proof -
  have h1: "tzinfo (utc_2024_01_01 10 0 0) = None" and h2: "tzinfo (utc_2024_01_01 10 0 1) = None"
    by (simp_all add: utc_2024_01_01_def)
  have d: "wall_micros (utc_2024_01_01 10 0 1) - wall_micros (utc_2024_01_01 10 0 0) = 1000000"
    by (simp add: wall_micros_def toordinal_def utc_2024_01_01_def)
  have h3: "0 \<le> wall_micros (utc_2024_01_01 10 0 1) - wall_micros (utc_2024_01_01 10 0 0)"
    by (simp add: d)
  have h4: "wall_micros (utc_2024_01_01 10 0 1) - wall_micros (utc_2024_01_01 10 0 0)
              < cache_ttl init * 1000000"
    by (simp add: d init_def)
  show ?thesis
    by (rule C4_mark_then_exists [OF h1 h2 h3 h4])
qed

text \<open>
  C6. When \<^verbatim>\<open>alread_exists\<close> sends its existence query and the Oracle raises, the
  call returns \<^verbatim>\<open>False\<close> and the engine, its cache included, is what it was before
  the call.
\<close>

theorem C6_oracle_failure:
  assumes "db (exists_query h (get_time_column h) lookback_hours) f = Inl err"
    and "queries (alread_exists self db now now' f h lookback_hours) \<noteq> []"
  shows "returned (alread_exists self db now now' f h lookback_hours) = Inr False
         \<and> engine (alread_exists self db now now' f h lookback_hours) = self"
  using assms
  by (auto simp: alread_exists_def Let_def split: option.splits sum.splits if_splits prod.splits)

theorem C6_witness:
  "queries (alread_exists init oracle_down (utc_2024_01_01 10 0 0) (utc_2024_01_01 10 0 1)
              ''f1'' ''query_performance'' 1)
     = [(exists_query ''query_performance'' ''executed_at'' 1, ''f1'')]
   \<and> returned (alread_exists init oracle_down (utc_2024_01_01 10 0 0) (utc_2024_01_01 10 0 1)
                 ''f1'' ''query_performance'' 1) = Inr False
   \<and> engine (alread_exists init oracle_down (utc_2024_01_01 10 0 0) (utc_2024_01_01 10 0 1)
               ''f1'' ''query_performance'' 1) = init"
proof -
  have h1: "oracle_down (exists_query ''query_performance'' (get_time_column ''query_performance'') 1)
              ''f1'' = Inl (OtherError ''connection lost'')"
    by (simp add: oracle_down_def)
  have q: "queries (alread_exists init oracle_down (utc_2024_01_01 10 0 0) (utc_2024_01_01 10 0 1)
                      ''f1'' ''query_performance'' 1)
             = [(exists_query ''query_performance'' ''executed_at'' 1, ''f1'')]"
    by (simp add: alread_exists_def init_def oracle_down_def get_time_column_def time_columns_def
          Let_def)
  then have h2: "queries (alread_exists init oracle_down (utc_2024_01_01 10 0 0)
                            (utc_2024_01_01 10 0 1) ''f1'' ''query_performance'' 1) \<noteq> []"
    by simp
  show ?thesis
    using q C6_oracle_failure [OF h1 h2] by simp
qed

section \<open>The event router\<close>

text \<open>
  The listening loop. With nobody calling \<^verbatim>\<open>stop()\<close> it never ends, so
  \<^verbatim>\<open>start_listening\<close> never returns once its first listen has succeeded; with
  \<^verbatim>\<open>stop()\<close> called during sleep \<open>k\<close> it ends after that sleep.
\<close>

lemma wait_returns_only_when_stopped:
  assumes "wait_while_running stop_at w = Some w'"
  shows "\<not> (stop_at = None \<and> running w)"
proof (rule wait_while_running.raw_induct
         [where P = "\<lambda>s v y. \<not> (s = None \<and> running v)" and stop_at = stop_at and w = w and y = w'])
  fix f :: "nat option \<Rightarrow> world \<Rightarrow> world option" and s v y
  assume ih: "\<And>s' v' y'. f s' v' = Some y' \<Longrightarrow> \<not> (s' = None \<and> running v')"
    and step: "(if running v then f s (sleep s v) else Some v) = Some y"
  show "\<not> (s = None \<and> running v)"
  proof
    assume a: "s = None \<and> running v"
    then have "f s (sleep s v) = Some y"
      using step by simp
    then have "\<not> (s = None \<and> running (sleep s v))"
      by (rule ih)
    moreover have "running (sleep s v)"
      using a by (simp add: sleep_def emit_effect_def)
    ultimately show False using a by simp
  qed
next
  show "wait_while_running stop_at w = Some w'" by (rule assms)
qed

lemma wait_forever: "running w \<Longrightarrow> wait_while_running None w = None"
  using wait_returns_only_when_stopped [of None w] by (cases "wait_while_running None w") auto

lemma listen_channel_running:
  "running (snd (listen_channel t ch w)) = running w"
  by (simp add: listen_channel_def emit_effect_def split: option.splits sum.splits)

lemma start_listening_waits_forever:
  assumes "\<not> running w" and "channels w = ch # chs"
    and "listen_channel t ch (w\<lparr>running := True\<rparr>) = (Inr (), w1)"
  shows "start_listening t None w = None"
proof -
  have "running w1"
    using listen_channel_running [of t ch "w\<lparr>running := True\<rparr>"] assms(3) by simp
  then have "wait_while_running None (emit_effect (Log RouterListening) w1) = None"
    by (intro wait_forever) (simp add: emit_effect_def)
  moreover have "channels (w\<lparr>running := True\<rparr>) = ch # chs"
    using assms(2) by (simp add: channels_def)
  ultimately have "listen_loop t None (channels w) (w\<lparr>running := True\<rparr>) = None"
    using assms(2,3) by simp
  then show ?thesis
    using assms(1) by (simp add: start_listening_def)
qed

lemma wait_ends_when_stopped:
  assumes "running w" and "polls w < k"
  shows "\<exists>w'. wait_while_running (Some k) w = Some w' \<and> \<not> running w' \<and> polls w' = k"
  using assms
proof (induction "k - polls w" arbitrary: w)
  case 0
  then show ?case by simp
next
  case (Suc n)
  show ?case
  proof (cases "Suc (polls w) = k")
    case True
    then have "\<not> running (sleep (Some k) w)" and "polls (sleep (Some k) w) = k"
      by (simp_all add: sleep_def emit_effect_def)
    then show ?thesis
      using Suc.prems(1)
      by (subst wait_while_running.simps, simp, subst wait_while_running.simps, simp)
  next
    case False
    then have r: "running (sleep (Some k) w)" and p: "polls (sleep (Some k) w) = Suc (polls w)"
      using Suc.prems(1) by (simp_all add: sleep_def emit_effect_def)
    have "n = k - polls (sleep (Some k) w)" using Suc.hyps(2) p by simp
    moreover have "polls (sleep (Some k) w) < k" using False Suc.prems(2) p by simp
    ultimately obtain w' where "wait_while_running (Some k) (sleep (Some k) w) = Some w'"
      and "\<not> running w'" and "polls w' = k"
      using Suc.hyps(1) [of "sleep (Some k) w"] r by blast
    then show ?thesis
      using Suc.prems(1) by (subst wait_while_running.simps) simp
  qed
qed

text \<open>
  The failure path of \<^verbatim>\<open>start_listening\<close>. \<^verbatim>\<open>cleanup\<close> leaves the running flag
  alone, so when the first listen fails the coroutine raises that failure, after it has
  marked the router stopped and run \<^verbatim>\<open>cleanup\<close>.
\<close>

lemma unlisten_channel_running: "running (snd (unlisten_channel t c w)) = running w"
  by (simp add: unlisten_channel_def emit_effect_def split: option.splits sum.splits)

lemma unlisten_all_running: "running (snd (unlisten_all t chs w)) = running w"
proof (induction chs arbitrary: w)
  case Nil
  then show ?case by simp
next
  case (Cons c cs)
  show ?case
  proof (cases "unlisten_channel t c w")
    case (Pair r1 w1)
    then have "running w1 = running w"
      using unlisten_channel_running [of t c w] by simp
    then show ?thesis
      using Pair Cons.IH [of w1] by (cases r1) simp_all
  qed
qed

lemma cleanup_running: "running (snd (cleanup t w)) = running w"
proof (cases "unlisten_all t (channels w) w")
  case (Pair r0 w0)
  then have "running w0 = running w"
    using unlisten_all_running [of t "channels w" w] by simp
  then show ?thesis
    using Pair by (cases r0) (simp_all add: cleanup_def emit_effect_def)
qed

lemma start_listening_first_listen_fails:
  assumes "\<not> running w" and "channels w = ch # chs"
    and "listen_channel t ch (w\<lparr>running := True\<rparr>) = (Inl e, w1)"
  shows "\<exists>w'. start_listening t stop_at w = Some (Inl e, w')
              \<and> \<not> running w'
              \<and> w' = snd (cleanup t ((emit_effect (Log (RouterError e)) w1)\<lparr>running := False\<rparr>))"
proof -
  have "channels (w\<lparr>running := True\<rparr>) = ch # chs"
    using assms(2) by (simp add: channels_def)
  then have "listen_loop t stop_at (channels w) (w\<lparr>running := True\<rparr>) = Some (Inl e, w1)"
    using assms(2,3) by simp
  then have "start_listening t stop_at w
               = Some (Inl e, snd (cleanup t ((emit_effect (Log (RouterError e)) w1)\<lparr>running := False\<rparr>)))"
    using assms(1) by (simp add: start_listening_def)
  moreover have "\<not> running (snd (cleanup t ((emit_effect (Log (RouterError e)) w1)\<lparr>running := False\<rparr>)))"
    by (simp add: cleanup_running)
  ultimately show ?thesis by simp
qed

text \<open>
  C5. \<^verbatim>\<open>start_listening\<close> is to open a listen for every subscribed channel before it
  waits. With two subscribed channels and \<^verbatim>\<open>stop()\<close> called during the second sleep,
  it listens on \<open>monitoring_events\<close> only, sleeps, and opens the listen on
  \<open>performance_events\<close> after the wait has ended, just before \<^verbatim>\<open>cleanup()\<close>
  runs: the \<^verbatim>\<open>while\<close> loop stands inside the \<^verbatim>\<open>for\<close> loop.
\<close>

theorem C5_second_channel_listened_after_wait:
  "map_option fst (start_listening transport_ok (Some 2) two_channels) = Some (Inr ())
   \<and> map_option (trace \<circ> snd) (start_listening transport_ok (Some 2) two_channels)
       = Some [Acquire 17, AddListener 17 ''monitoring_events'',
               Log (ListeningOn ''monitoring_events''), Log RouterListening,
               Sleep, Sleep,
               Acquire 18, AddListener 18 ''performance_events'',
               Log (ListeningOn ''performance_events''), Log RouterListening,
               Log (UnlistenError ''monitoring_events'' TypeError),
               Log (UnlistenError ''performance_events'' TypeError), Log CleanupComplete]"
  by code_simp

text \<open>
  C7, as stated: a failing publish would reach the caller of \<^verbatim>\<open>emit\<close>. With
  \<^verbatim>\<open>pg_notify\<close> failing, \<^verbatim>\<open>emit\<close> returns normally and the only trace of the
  failure is the log record.
\<close>

theorem C7_counterexample:
  "pg_notify transport_notify_down ''monitoring_events'' ''payload''
     = Inl (OtherError ''connection lost'')
   \<and> fst (emit dumps_ok transport_notify_down ''monitoring_events''
            (slow_query ''2024-01-01T10:03:30Z'') two_channels) = Inr ()
   \<and> trace (snd (emit dumps_ok transport_notify_down ''monitoring_events''
                   (slow_query ''2024-01-01T10:03:30Z'') two_channels))
       = [Log (EmitFailed ''monitoring_events'' (OtherError ''connection lost''))]"
  by (simp add: emit_def dumps_ok_def transport_notify_down_def transport_ok_def emit_effect_def
        two_channels_def)

text \<open>
  C7, amended: for every channel and data dict, when the transport publish inside
  \<^verbatim>\<open>emit\<close> fails, \<^verbatim>\<open>emit\<close> logs the failure and returns normally; nothing else
  changes, and the caller is not told.
\<close>

theorem C7_emit_logs_and_returns:
  assumes "dumps data = Inr payload" and "pg_notify t channel payload = Inl e"
  shows "emit dumps t channel data w = (Inr (), w\<lparr>trace := trace w @ [Log (EmitFailed channel e)]\<rparr>)"
  using assms by (simp add: emit_def emit_effect_def)

theorem C7_witness:
  "emit dumps_ok transport_notify_down ''monitoring_events'' (slow_query ''2024-01-01T10:03:30Z'')
     two_channels
     = (Inr (), two_channels\<lparr>trace := trace two_channels
          @ [Log (EmitFailed ''monitoring_events'' (OtherError ''connection lost''))]\<rparr>)"
proof -
  have h1: "dumps_ok (slow_query ''2024-01-01T10:03:30Z'') = Inr ''payload''"
    by (simp add: dumps_ok_def)
  have h2: "pg_notify transport_notify_down ''monitoring_events'' ''payload''
              = Inl (OtherError ''connection lost'')"
    by (simp add: transport_notify_down_def)
  show ?thesis
    by (rule C7_emit_logs_and_returns
          [where dumps = dumps_ok and t = transport_notify_down, OF h1 h2])
qed

text \<open>
  What \<^verbatim>\<open>unlisten_channel\<close> and \<^verbatim>\<open>cleanup\<close> do, on every transport and in every
  state. The call \<^verbatim>\<open>conn.remove_listener(channel)\<close> raises before the connection is
  reached, so for a channel the database listens on the only effect is the log record of
  that \<^verbatim>\<open>TypeError\<close>: no listener is removed, no connection goes back to the pool, and
  \<^verbatim>\<open>listeners\<close> keeps its entry. \<^verbatim>\<open>cleanup\<close> raises nothing and visits every
  subscribed channel, in order.
\<close>

lemma unlisten_channel_releases_nothing:
  "unlisten_channel t c w
     = (Inr (),
        w\<lparr>trace := trace w
             @ [Log (case listeners w c of
                       None \<Rightarrow> NotListening c
                     | Some conn \<Rightarrow> UnlistenError c TypeError)]\<rparr>)"
  by (simp add: unlisten_channel_def call_remove_listener_def emit_effect_def
        split: option.splits)

lemma unlisten_all_releases_nothing:
  "unlisten_all t chs w
     = (Inr (),
        w\<lparr>trace := trace w
             @ map (\<lambda>c. Log (case listeners w c of
                               None \<Rightarrow> NotListening c
                             | Some conn \<Rightarrow> UnlistenError c TypeError)) chs\<rparr>)"
proof (induction chs arbitrary: w)
  case Nil
  then show ?case by simp
next
  case (Cons c cs)
  show ?case
    by (simp add: unlisten_channel_releases_nothing Cons.IH)
qed

lemma cleanup_releases_nothing:
  "cleanup t w
     = (Inr (),
        w\<lparr>trace := trace w
             @ map (\<lambda>c. Log (case listeners w c of
                               None \<Rightarrow> NotListening c
                             | Some conn \<Rightarrow> UnlistenError c TypeError)) (channels w)
             @ [Log CleanupComplete]\<rparr>)"
  by (simp add: cleanup_def unlisten_all_releases_nothing emit_effect_def)

lemma cleanup_keeps_listeners: "listeners (snd (cleanup t w)) = listeners w"
  by (simp add: cleanup_releases_nothing)

text \<open>
  C8. \<^verbatim>\<open>cleanup\<close> is to release the listen resource of every subscribed channel. On a
  router listening on its two channels, over a transport on which every call succeeds,
  \<^verbatim>\<open>cleanup\<close> logs one \<^verbatim>\<open>TypeError\<close> per channel and releases neither: both
  connections stay in \<^verbatim>\<open>listeners\<close>, and the trace has no \<open>RemoveListener\<close> and no
  \<open>Release\<close>.
\<close>

theorem C8_cleanup_releases_no_channel:
  "cleanup transport_ok two_channels_listening
     = (Inr (),
        two_channels_listening
          \<lparr>trace := [Log (UnlistenError ''monitoring_events'' TypeError),
                     Log (UnlistenError ''performance_events'' TypeError),
                     Log CleanupComplete]\<rparr>)
   \<and> listeners (snd (cleanup transport_ok two_channels_listening)) ''monitoring_events'' = Some 17
   \<and> listeners (snd (cleanup transport_ok two_channels_listening)) ''performance_events'' = Some 18"
  by (simp add: cleanup_releases_nothing channels_def two_channels_listening_def two_channels_def)

end
